theory Spec2Isabelle
  imports Main
begin

section \<open>Packed C records of the RWS container\<close>

text \<open>
  The source is a single header of record declarations, all of them between
  \<^verbatim>\<open>#pragma pack(push,1)\<close> and \<^verbatim>\<open>#pragma pack(pop)\<close>. A declaration is embedded
  as the list of its members in source order; the layout function places the members back
  to back, which is what packing with alignment 1 means: no padding before a member and
  none after the last one.
\<close>

subsection \<open>Scalar types\<close>

datatype ctype = UInt8 | UInt16 | Int16 | UInt32

fun sizeof_ctype :: "ctype \<Rightarrow> nat" where
  "sizeof_ctype UInt8 = 1"
| "sizeof_ctype UInt16 = 2"
| "sizeof_ctype Int16 = 2"
| "sizeof_ctype UInt32 = 4"

text \<open>The least and the greatest value of each type, as in \<^verbatim>\<open>stdint.h\<close>.\<close>

fun ctype_min :: "ctype \<Rightarrow> int" where
  "ctype_min UInt8 = 0"
| "ctype_min UInt16 = 0"
| "ctype_min Int16 = - 32768"
| "ctype_min UInt32 = 0"

fun ctype_max :: "ctype \<Rightarrow> int" where
  "ctype_max UInt8 = 255"
| "ctype_max UInt16 = 65535"
| "ctype_max Int16 = 32767"
| "ctype_max UInt32 = 4294967295"

fun ctype_signed :: "ctype \<Rightarrow> bool" where
  "ctype_signed Int16 = True"
| "ctype_signed _ = False"

subsection \<open>Members and records\<close>

text \<open>
  A member is a name, an element type and an element count: 1 for \<^verbatim>\<open>T x;\<close> and \<open>n\<close>
  for \<^verbatim>\<open>T x[n];\<close>.
\<close>

record member =
  mname :: string
  mtype :: ctype
  mcount :: nat

type_synonym struct = "member list"

definition uint32_t :: "string \<Rightarrow> member" where
  "uint32_t n = \<lparr>mname = n, mtype = UInt32, mcount = 1\<rparr>"

definition uint16_t :: "string \<Rightarrow> member" where
  "uint16_t n = \<lparr>mname = n, mtype = UInt16, mcount = 1\<rparr>"

definition uint8_t :: "string \<Rightarrow> member" where
  "uint8_t n = \<lparr>mname = n, mtype = UInt8, mcount = 1\<rparr>"

definition uint8_t_array :: "string \<Rightarrow> nat \<Rightarrow> member" where
  "uint8_t_array n k = \<lparr>mname = n, mtype = UInt8, mcount = k\<rparr>"

definition int16_t_array :: "string \<Rightarrow> nat \<Rightarrow> member" where
  "int16_t_array n k = \<lparr>mname = n, mtype = Int16, mcount = k\<rparr>"

definition sizeof_member :: "member \<Rightarrow> nat" where
  "sizeof_member m = sizeof_ctype (mtype m) * mcount m"

fun sizeof_struct :: "struct \<Rightarrow> nat" where
  "sizeof_struct [] = 0"
| "sizeof_struct (m # ms) = sizeof_member m + sizeof_struct ms"

fun offsetof :: "struct \<Rightarrow> string \<Rightarrow> nat option" where
  "offsetof [] n = None"
| "offsetof (m # ms) n =
     (if mname m = n then Some 0
      else (case offsetof ms n of None \<Rightarrow> None | Some k \<Rightarrow> Some (sizeof_member m + k)))"

fun member_of :: "struct \<Rightarrow> string \<Rightarrow> member option" where
  "member_of [] n = None"
| "member_of (m # ms) n = (if mname m = n then Some m else member_of ms n)"

text \<open>The layout table of a record placed at offset \<open>base\<close>: name, offset and size in bytes
  of every member, in source order.\<close>

fun layout_from :: "nat \<Rightarrow> struct \<Rightarrow> (string \<times> nat \<times> nat) list" where
  "layout_from base [] = []"
| "layout_from base (m # ms) =
     (mname m, base, sizeof_member m) # layout_from (base + sizeof_member m) ms"

definition layout :: "struct \<Rightarrow> (string \<times> nat \<times> nat) list" where
  "layout s = layout_from 0 s"

text \<open>The member whose bytes include byte \<open>k\<close> of the record, if any.\<close>

fun member_at :: "struct \<Rightarrow> nat \<Rightarrow> string option" where
  "member_at [] k = None"
| "member_at (m # ms) k =
     (if k < sizeof_member m then Some (mname m) else member_at ms (k - sizeof_member m))"

text \<open>The names of the members that are \<open>w\<close> bytes wide.\<close>

definition members_of_width :: "nat \<Rightarrow> struct \<Rightarrow> string list" where
  "members_of_width w s = map mname (filter (\<lambda>m. sizeof_member m = w) s)"

subsection \<open>The declarations\<close>

text \<open>Top-level file header, at offset 0 of the file, followed by chunks.\<close>

definition RWS_FileHeader :: struct where
  "RWS_FileHeader =
     [uint32_t ''id'',
      uint32_t ''file_size'',
      uint32_t ''version'']"

text \<open>Generic RenderWare chunk header.\<close>

definition RWS_ChunkHeader :: struct where
  "RWS_ChunkHeader =
     [uint32_t ''id'',
      uint32_t ''size'',
      uint32_t ''version'']"

text \<open>Audio header chunk; followed by the padded string of the file name.\<close>

definition RWS_HeaderBase :: struct where
  "RWS_HeaderBase =
     [uint32_t ''header_size_actual'',
      uint32_t ''section_size_1'',
      uint32_t ''section_size_2'',
      uint32_t ''section_size_3'',
      uint32_t ''config_1'',
      uint32_t ''config_2'',
      uint32_t ''zero_1'',
      uint32_t ''total_segments'',
      uint32_t ''config_3'',
      uint32_t ''total_layers'',
      uint32_t ''config_4'',
      uint32_t ''unknown_30'',
      uint32_t ''block_layers_size'',
      uint32_t ''data_offset'',
      uint32_t ''zero_2'',
      uint8_t_array ''file_uuid'' 16]"

text \<open>Segment info table, \<open>total_segments\<close> entries.\<close>

definition RWS_SegmentInfo :: struct where
  "RWS_SegmentInfo =
     [uint32_t ''unk_00'',
      uint32_t ''unk_04'',
      uint32_t ''unk_08'',
      uint32_t ''unk_0C'',
      uint32_t ''unk_10'',
      uint32_t ''unk_14'',
      uint32_t ''layers_size'',
      uint32_t ''data_offset'']"

text \<open>Layer info table, \<open>total_layers\<close> entries.\<close>

definition RWS_LayerInfo :: struct where
  "RWS_LayerInfo =
     [uint32_t ''unk_00'',
      uint32_t ''unk_04'',
      uint32_t ''zero_08'',
      uint32_t ''frame_hint'',
      uint32_t ''block_size_pad'',
      uint32_t ''unk_14'',
      uint16_t ''interleave'',
      uint16_t ''frame_size'',
      uint32_t ''unk_1C'',
      uint32_t ''block_size'',
      uint32_t ''layer_start'']"

text \<open>Layer config table, \<open>total_layers\<close> entries.\<close>

definition RWS_LayerConfig :: struct where
  "RWS_LayerConfig =
     [uint32_t ''sample_rate'',
      uint32_t ''unk_04'',
      uint32_t ''approx_size'',
      uint16_t ''bits_per_sample'',
      uint8_t ''channels'',
      uint8_t ''unk_0F'',
      uint32_t ''unk_10'',
      uint32_t ''unk_14'',
      uint32_t ''unk_18'',
      uint32_t ''codec_uuid_first'',
      uint8_t_array ''codec_uuid_rest'' 12]"

text \<open>Extra DSP info, present only when the codec is DSP.\<close>

definition RWS_DSPInfo :: struct where
  "RWS_DSPInfo =
     [uint32_t ''approx_samples'',
      uint32_t ''unk_04'',
      uint8_t_array ''reserved'' 0x14,
      int16_t_array ''coefs'' 16,
      int16_t_array ''hist'' 16]"

text \<open>The last declaration of the source, \<open>RWS_DataChunk\<close>, has a flexible array as its only
  member. It has no fixed part to lay out and is not embedded.\<close>

subsection \<open>What the comments say of sizes and of what follows a record\<close>

text \<open>\<open>file_size\<close> is the size of the file excluding its first \<open>0x0C\<close> bytes: for a file of
  \<open>n\<close> bytes it is \<open>n - 0x0C\<close>, and no file shorter than that prefix has one.\<close>

definition file_size_excluded :: nat where
  "file_size_excluded = 0x0C"

definition file_size_of :: "nat \<Rightarrow> nat option" where
  "file_size_of n = (if n < file_size_excluded then None else Some (n - file_size_excluded))"

text \<open>What follows a record in the stream begins where the record ends: the padded name
  after the audio header's fixed part.\<close>

definition RWS_HeaderBase_name_offset :: nat where
  "RWS_HeaderBase_name_offset = sizeof_struct RWS_HeaderBase"

subsection \<open>Naming conventions of the declarations\<close>

text \<open>A member the source could not identify is named \<open>unk_\<close> followed by its offset.\<close>

definition unidentified :: "string \<Rightarrow> bool" where
  "unidentified n = (take 4 n = ''unk_'')"

lemmas member_defs =
  uint32_t_def uint16_t_def uint8_t_def uint8_t_array_def int16_t_array_def sizeof_member_def

section \<open>Packed layout: general facts\<close>

lemma sizeof_struct_append: "sizeof_struct (xs @ ys) = sizeof_struct xs + sizeof_struct ys"
  by (induction xs) simp_all

lemma layout_from_length: "length (layout_from b s) = length s"
  by (induction s arbitrary: b) simp_all

lemma layout_from_names: "map fst (layout_from b s) = map mname s"
  by (induction s arbitrary: b) simp_all

text \<open>No padding: in the layout table each member starts where the one before it ends,
  and the sizes of the members add up to the size of the record.\<close>

lemma layout_from_contiguous:
  "successively (\<lambda>x y. fst (snd y) = fst (snd x) + snd (snd x)) (layout_from b s)"
proof (induction s arbitrary: b)
  case Nil
  show ?case by simp
next
  case (Cons a s)
  show ?case
  proof (cases s)
    case Nil
    then show ?thesis by simp
  next
    case (Cons a' s')
    with Cons.IH [of "b + sizeof_member a"] show ?thesis by simp
  qed
qed

lemma layout_from_sizes: "sum_list (map (\<lambda>x. snd (snd x)) (layout_from b s)) = sizeof_struct s"
  by (induction s arbitrary: b) simp_all

text \<open>A member lies inside its record, at the offset the layout table gives it.\<close>

lemma offsetof_member_of:
  "offsetof s n = Some k \<Longrightarrow> \<exists>m. member_of s n = Some m \<and> k + sizeof_member m \<le> sizeof_struct s"
proof (induction s arbitrary: k)
  case Nil
  then show ?case by simp
next
  case (Cons a s)
  show ?case
  proof (cases "mname a = n")
    case True
    with Cons.prems show ?thesis by simp
  next
    case False
    with Cons.prems obtain j where j: "offsetof s n = Some j" and k: "k = sizeof_member a + j"
      by (auto split: option.splits)
    from Cons.IH [OF j] obtain m where "member_of s n = Some m"
      and "j + sizeof_member m \<le> sizeof_struct s" by blast
    with False k show ?thesis by simp
  qed
qed

lemma offsetof_in_layout:
  "offsetof s n = Some k \<Longrightarrow> member_of s n = Some m \<Longrightarrow>
   (n, b + k, sizeof_member m) \<in> set (layout_from b s)"
proof (induction s arbitrary: k b)
  case Nil
  then show ?case by simp
next
  case (Cons a s)
  show ?case
  proof (cases "mname a = n")
    case True
    with Cons.prems show ?thesis by simp
  next
    case False
    with Cons.prems obtain j where j: "offsetof s n = Some j" and k: "k = sizeof_member a + j"
      by (auto split: option.splits)
    from False Cons.prems have "member_of s n = Some m" by simp
    from Cons.IH [OF j this, of "b + sizeof_member a"] k show ?thesis
      by (simp add: add.assoc)
  qed
qed

text \<open>Every byte of a record belongs to a member, and no byte beyond its size does.\<close>

lemma member_at_Some_iff: "(\<exists>n. member_at s k = Some n) \<longleftrightarrow> k < sizeof_struct s"
proof (induction s arbitrary: k)
  case Nil
  show ?case by simp
next
  case (Cons a s)
  show ?case
  proof (cases "k < sizeof_member a")
    case True
    then show ?thesis by simp
  next
    case False
    then have "(\<exists>n. member_at (a # s) k = Some n) \<longleftrightarrow> k - sizeof_member a < sizeof_struct s"
      using Cons.IH [of "k - sizeof_member a"] by simp
    with False show ?thesis by auto
  qed
qed

section \<open>The layouts of the seven records\<close>

text \<open>
  C1. The fixed part of the audio header is 76 bytes: fifteen 4-byte members, then the
  16-byte \<open>file_uuid\<close>. In order the members are the header size, three section sizes, two
  config words, (a zero word,) the segment count, (a config word,) the layer count, two
  further config words, \<open>block_layers_size\<close>, \<open>data_offset\<close> (and a zero word); the padded
  name begins right after the UUID, at byte 76.
\<close>

theorem RWS_HeaderBase_layout:
  "sizeof_struct RWS_HeaderBase = 76
   \<and> layout RWS_HeaderBase =
       [(''header_size_actual'', 0, 4),
        (''section_size_1'', 4, 4), (''section_size_2'', 8, 4), (''section_size_3'', 12, 4),
        (''config_1'', 16, 4), (''config_2'', 20, 4),
        (''zero_1'', 24, 4),
        (''total_segments'', 28, 4),
        (''config_3'', 32, 4),
        (''total_layers'', 36, 4),
        (''config_4'', 40, 4), (''unknown_30'', 44, 4),
        (''block_layers_size'', 48, 4),
        (''data_offset'', 52, 4),
        (''zero_2'', 56, 4),
        (''file_uuid'', 60, 16)]
   \<and> map (offsetof RWS_HeaderBase)
         [''header_size_actual'', ''section_size_1'', ''section_size_2'', ''section_size_3'',
          ''config_1'', ''config_2'', ''total_segments'', ''total_layers'', ''config_4'',
          ''unknown_30'', ''block_layers_size'', ''data_offset'', ''file_uuid'']
       = map Some [0, 4, 8, 12, 16, 20, 28, 36, 40, 44, 48, 52, 60]
   \<and> length (members_of_width 4 RWS_HeaderBase) = 15
   \<and> map mtype (take 15 RWS_HeaderBase) = replicate 15 UInt32
   \<and> member_of RWS_HeaderBase ''file_uuid'' = Some (uint8_t_array ''file_uuid'' 16)
   \<and> offsetof RWS_HeaderBase ''file_uuid'' = Some (15 * 4)
   \<and> RWS_HeaderBase_name_offset = 60 + 16"
  by (simp add: RWS_HeaderBase_name_offset_def RWS_HeaderBase_def layout_def
      members_of_width_def member_defs eval_nat_numeral)

text \<open>
  C2. The DSP record is 92 bytes: two 4-byte members, \<open>approx_samples\<close> first, 20 reserved
  bytes, 16 signed 16-bit coefficients and 16 signed 16-bit history values. The coefficient
  table starts at byte 28.
\<close>

theorem RWS_DSPInfo_layout:
  "sizeof_struct RWS_DSPInfo = 92
   \<and> layout RWS_DSPInfo =
       [(''approx_samples'', 0, 4), (''unk_04'', 4, 4),
        (''reserved'', 8, 20),
        (''coefs'', 28, 16 * 2),
        (''hist'', 60, 16 * 2)]
   \<and> member_of RWS_DSPInfo ''coefs'' = Some \<lparr>mname = ''coefs'', mtype = Int16, mcount = 16\<rparr>
   \<and> member_of RWS_DSPInfo ''hist'' = Some \<lparr>mname = ''hist'', mtype = Int16, mcount = 16\<rparr>
   \<and> ctype_signed Int16 \<and> sizeof_ctype Int16 = 2
   \<and> offsetof RWS_DSPInfo ''coefs'' = Some 28"
  by (simp add: RWS_DSPInfo_def layout_def member_defs)

text \<open>
  C3. A layer geometry record is 40 bytes of 4-byte and 2-byte members. \<open>interleave\<close> and
  \<open>frame_size\<close> are the only 2-byte members, unsigned, so their values are below \<open>2^16\<close>;
  \<open>frame_hint\<close>, \<open>block_size_pad\<close>, \<open>block_size\<close> and \<open>layer_start\<close> are 4-byte members,
  and \<open>layer_start\<close> is the last member of the record.
\<close>

theorem RWS_LayerInfo_layout:
  "sizeof_struct RWS_LayerInfo = 40
   \<and> layout RWS_LayerInfo =
       [(''unk_00'', 0, 4), (''unk_04'', 4, 4), (''zero_08'', 8, 4),
        (''frame_hint'', 12, 4),
        (''block_size_pad'', 16, 4),
        (''unk_14'', 20, 4),
        (''interleave'', 24, 2),
        (''frame_size'', 26, 2),
        (''unk_1C'', 28, 4),
        (''block_size'', 32, 4),
        (''layer_start'', 36, 4)]
   \<and> members_of_width 2 RWS_LayerInfo = [''interleave'', ''frame_size'']
   \<and> members_of_width 4 RWS_LayerInfo =
       [''unk_00'', ''unk_04'', ''zero_08'', ''frame_hint'', ''block_size_pad'', ''unk_14'',
        ''unk_1C'', ''block_size'', ''layer_start'']
   \<and> map (\<lambda>m. (ctype_min (mtype m), ctype_max (mtype m)))
         (filter (\<lambda>m. sizeof_member m = 2) RWS_LayerInfo) = [(0, 2 ^ 16 - 1), (0, 2 ^ 16 - 1)]
   \<and> last RWS_LayerInfo = uint32_t ''layer_start''
   \<and> offsetof RWS_LayerInfo ''layer_start'' = Some (sizeof_struct RWS_LayerInfo - 4)"
  by (simp add: RWS_LayerInfo_def layout_def members_of_width_def member_defs)

text \<open>
  C4. A layer config record is 44 bytes: \<open>sample_rate\<close> and \<open>approx_size\<close> are 4-byte
  members, \<open>bits_per_sample\<close> a 2-byte member, \<open>channels\<close> a 1-byte member, and the codec
  UUID is a 32-bit word followed by 12 bytes, 128 bits together, which end the record.
\<close>

theorem RWS_LayerConfig_layout:
  "sizeof_struct RWS_LayerConfig = 44
   \<and> layout RWS_LayerConfig =
       [(''sample_rate'', 0, 4), (''unk_04'', 4, 4),
        (''approx_size'', 8, 4),
        (''bits_per_sample'', 12, 2),
        (''channels'', 14, 1), (''unk_0F'', 15, 1),
        (''unk_10'', 16, 4), (''unk_14'', 20, 4), (''unk_18'', 24, 4),
        (''codec_uuid_first'', 28, 4),
        (''codec_uuid_rest'', 32, 12)]
   \<and> member_of RWS_LayerConfig ''codec_uuid_first'' = Some (uint32_t ''codec_uuid_first'')
   \<and> member_of RWS_LayerConfig ''codec_uuid_rest'' = Some (uint8_t_array ''codec_uuid_rest'' 12)
   \<and> map mname (drop 9 RWS_LayerConfig) = [''codec_uuid_first'', ''codec_uuid_rest'']
   \<and> 8 * sizeof_struct (drop 9 RWS_LayerConfig) = 128
   \<and> sizeof_struct (take 9 RWS_LayerConfig) + 4 + 12 = sizeof_struct RWS_LayerConfig"
  by (simp add: RWS_LayerConfig_def layout_def member_defs)

text \<open>
  C5. A segment record is 32 bytes, eight 4-byte members. The last two are \<open>layers_size\<close>
  (total size of all layers including padding) and \<open>data_offset\<close> (offset inside the data
  chunk); the six before them are unidentified.
\<close>

theorem RWS_SegmentInfo_layout:
  "sizeof_struct RWS_SegmentInfo = 32
   \<and> layout RWS_SegmentInfo =
       [(''unk_00'', 0, 4), (''unk_04'', 4, 4), (''unk_08'', 8, 4), (''unk_0C'', 12, 4),
        (''unk_10'', 16, 4), (''unk_14'', 20, 4),
        (''layers_size'', 24, 4),
        (''data_offset'', 28, 4)]
   \<and> length RWS_SegmentInfo = 8
   \<and> map mtype RWS_SegmentInfo = replicate 8 UInt32
   \<and> map mname (drop 6 RWS_SegmentInfo) = [''layers_size'', ''data_offset'']
   \<and> list_all unidentified (map mname (take 6 RWS_SegmentInfo))
   \<and> filter unidentified (map mname RWS_SegmentInfo) = map mname (take 6 RWS_SegmentInfo)"
  by (simp add: RWS_SegmentInfo_def layout_def member_defs unidentified_def eval_nat_numeral)

text \<open>
  C6. The file header and the chunk header are 12 bytes each, three 4-byte members: id,
  size, version. \<open>file_size\<close> is the size of the file without its first 12 bytes, which are
  the file header itself.
\<close>

theorem RWS_FileHeader_ChunkHeader_layout:
  "sizeof_struct RWS_FileHeader = 12
   \<and> sizeof_struct RWS_ChunkHeader = 12
   \<and> layout RWS_FileHeader = [(''id'', 0, 4), (''file_size'', 4, 4), (''version'', 8, 4)]
   \<and> layout RWS_ChunkHeader = [(''id'', 0, 4), (''size'', 4, 4), (''version'', 8, 4)]
   \<and> map mtype RWS_FileHeader = [UInt32, UInt32, UInt32]
   \<and> map mtype RWS_ChunkHeader = [UInt32, UInt32, UInt32]
   \<and> file_size_excluded = sizeof_struct RWS_FileHeader
   \<and> file_size_of (sizeof_struct RWS_FileHeader + n) = Some n
   \<and> file_size_of 11 = None"
  by (simp add: RWS_FileHeader_def RWS_ChunkHeader_def layout_def member_defs
      file_size_excluded_def file_size_of_def)

end
